theory Spec2Isabelle
  imports Main
begin

section \<open>Data model of the scraper (main.go)\<close>

text \<open>
  Go strings are byte sequences; they are modelled as \<^typ>\<open>string\<close>. Go's \<open>int\<close> is
  modelled as \<^typ>\<open>int\<close>: the only integers of the program are HTTP status codes and
  the heading levels 0..6, so no arithmetic can overflow. The structs \<open>Link\<close> and
  \<open>Heading\<close> both have a field \<open>Text\<close>; the records name them \<open>LinkText\<close> and
  \<open>HeadingText\<close>.
\<close>

record Link =
  Href :: string
  LinkText :: string

record Heading =
  Level :: int
  HeadingText :: string

text \<open>
  \<open>ScrapedData.MetaTags\<close> is a Go \<open>map[string]string\<close>: a partial map, where an
  assignment to a key replaces the earlier value.
\<close>

record ScrapedData =
  URL :: string
  Title :: string
  Description :: string
  Keywords :: string
  Links :: "Link list"
  MetaTags :: "string \<rightharpoonup> string"
  Images :: "string list"
  Headings :: "Heading list"

record ErrorResponse =
  Error :: string
  Message :: string

subsection \<open>The parsed tree (\<open>html.Node\<close>)\<close>

datatype NodeType =
  ErrorNode | TextNode | DocumentNode | ElementNode | CommentNode | DoctypeNode | RawNode

record Attribute =
  Namespace :: string
  Key :: string
  Val :: string

text \<open>
  An \<open>html.Node\<close> links its children through \<open>FirstChild\<close> and \<open>NextSibling\<close>; the
  loop \<open>for c := n.FirstChild; c != nil; c = c.NextSibling\<close> visits them in order, so the
  model keeps the list of children. The parser returns a finite tree.
\<close>

datatype Node = Node (Type: NodeType) (Data: string) (Attr: "Attribute list") (Children: "Node list")

subsection \<open>HTTP responses\<close>

text \<open>
  \<open>http.Header\<close> is a \<open>map[string][]string\<close>. \<open>Header.Get\<close> returns the first value
  stored under a key and the empty string when there is none. The package stores and
  looks up keys in one canonical spelling; the model names a header by the spelling the
  source passes to \<open>Get\<close>.
\<close>

type_synonym Header = "string \<rightharpoonup> string list"

definition Get :: "Header \<Rightarrow> string \<Rightarrow> string" where
  "Get h key = (case h key of None \<Rightarrow> [] | Some [] \<Rightarrow> [] | Some (v # _) \<Rightarrow> v)"

text \<open>
  Of a response the program reads the status code, the headers and the body. Reading
  the body (\<open>io.ReadAll\<close>) gives the bytes (\<open>Inr\<close>) or fails with an error (\<open>Inl\<close>, the
  error's message).
\<close>

record Response =
  StatusCode :: int
  Header :: Header
  Body :: "string + string"

subsection \<open>The packages the program calls\<close>

text \<open>
  \<open>net/url\<close>, \<open>strings.TrimSpace\<close>, \<open>html.Parse\<close> and the HTTP client are not code of
  the repository. They are parameters of the model, collected in one record; \<open>'u\<close> is
  the type of parsed URLs (\<open>*url.URL\<close>). A call that can fail returns the error's
  message on the left.
\<close>

record 'u stdlib =
  urlParse :: "string \<Rightarrow> string + 'u"
  urlScheme :: "'u \<Rightarrow> string"
  ResolveReference :: "'u \<Rightarrow> 'u \<Rightarrow> 'u"
  urlString :: "'u \<Rightarrow> string"
  TrimSpace :: "string \<Rightarrow> string"
  htmlParse :: "string \<Rightarrow> string + Node"
  NewRequest :: "string \<Rightarrow> string option"
  clientDo :: "string \<Rightarrow> string + Response"

section \<open>String helpers\<close>

fun HasPrefix :: "string \<Rightarrow> string \<Rightarrow> bool" where
  "HasPrefix s [] = True"
| "HasPrefix [] (p # ps) = False"
| "HasPrefix (c # cs) (p # ps) = (c = p \<and> HasPrefix cs ps)"

text \<open>\<open>strings.Contains s substr\<close>: \<open>substr\<close> occurs in \<open>s\<close>.\<close>

fun Contains :: "string \<Rightarrow> string \<Rightarrow> bool" where
  "Contains [] substr = (substr = [])"
| "Contains (c # cs) substr = (HasPrefix (c # cs) substr \<or> Contains cs substr)"

text \<open>The verb \<open>%d\<close> of \<open>fmt\<close>: an integer in decimal.\<close>

fun digits :: "nat \<Rightarrow> string" where
  "digits n = (if n < 10 then [''0123456789'' ! n] else digits (n div 10) @ [''0123456789'' ! (n mod 10)])"

declare digits.simps [simp del]

definition itoa :: "int \<Rightarrow> string" where
  "itoa i = (if i < 0 then CHR ''-'' # digits (nat (- i)) else digits (nat i))"

section \<open>The extractor\<close>

text \<open>\<open>getTextContent\<close>: the loop appends the text of each child to \<open>text\<close>.\<close>

fun getTextContent :: "Node \<Rightarrow> string" where
  "getTextContent (Node ty d as cs) =
     (if ty = TextNode then d
      else foldl (\<lambda>text c. text @ getTextContent c) [] cs)"

text \<open>
  \<open>resolveURL\<close>: the base is parsed first, then the reference; either error returns
  \<open>href\<close>.
\<close>

definition resolveURL :: "'u stdlib \<Rightarrow> string \<Rightarrow> string \<Rightarrow> string" where
  "resolveURL env baseURL href =
     (case urlParse env baseURL of
        Inl err \<Rightarrow> href
      | Inr base \<Rightarrow>
          (case urlParse env href of
             Inl err \<Rightarrow> href
           | Inr ref \<Rightarrow> urlString env (ResolveReference env base ref)))"

text \<open>
  The loop of \<open>extractMetaTag\<close> runs over the whole attribute list; each attribute
  whose key is \<open>name\<close>, \<open>property\<close> or \<open>content\<close> overwrites the matching variable.
  The state of the loop is the triple \<open>(name, property, content)\<close>, all empty at first.
\<close>

definition metaAttrStep :: "string \<times> string \<times> string \<Rightarrow> Attribute \<Rightarrow> string \<times> string \<times> string" where
  "metaAttrStep st attr =
     (case st of (name, property, content) \<Rightarrow>
        if Key attr = ''name'' then (Val attr, property, content)
        else if Key attr = ''property'' then (name, Val attr, content)
        else if Key attr = ''content'' then (name, property, Val attr)
        else (name, property, content))"

definition metaAttrs :: "Attribute list \<Rightarrow> string \<times> string \<times> string" where
  "metaAttrs as = foldl metaAttrStep ([], [], []) as"

definition extractMetaTag :: "Node \<Rightarrow> ScrapedData \<Rightarrow> ScrapedData" where
  "extractMetaTag n data =
     (case metaAttrs (Attr n) of (name, property, content) \<Rightarrow>
        if name \<noteq> [] then
          (let data1 = data\<lparr>MetaTags := (MetaTags data)(name \<mapsto> content)\<rparr> in
           if name = ''description'' then data1\<lparr>Description := content\<rparr>
           else if name = ''keywords'' then data1\<lparr>Keywords := content\<rparr>
           else data1)
        else if property \<noteq> [] then data\<lparr>MetaTags := (MetaTags data)(property \<mapsto> content)\<rparr>
        else data)"

text \<open>
  The loops of \<open>extractLink\<close> and \<open>extractImage\<close> stop (\<open>break\<close>) at the first
  attribute with the key; the variable keeps its zero value, the empty string, when
  no attribute has it.
\<close>

fun firstAttr :: "string \<Rightarrow> Attribute list \<Rightarrow> string" where
  "firstAttr k [] = []"
| "firstAttr k (attr # as) = (if Key attr = k then Val attr else firstAttr k as)"

definition extractLink :: "'u stdlib \<Rightarrow> Node \<Rightarrow> ScrapedData \<Rightarrow> string \<Rightarrow> ScrapedData" where
  "extractLink env n data baseURL =
     (let href = firstAttr ''href'' (Attr n) in
      if href \<noteq> [] then
        (let absoluteURL = resolveURL env baseURL href;
             link = \<lparr>Href = absoluteURL, LinkText = TrimSpace env (getTextContent n)\<rparr>
         in data\<lparr>Links := Links data @ [link]\<rparr>)
      else data)"

definition extractImage :: "'u stdlib \<Rightarrow> Node \<Rightarrow> ScrapedData \<Rightarrow> string \<Rightarrow> ScrapedData" where
  "extractImage env n data baseURL =
     (let src = firstAttr ''src'' (Attr n) in
      if src \<noteq> [] then
        (let absoluteURL = resolveURL env baseURL src
         in data\<lparr>Images := Images data @ [absoluteURL]\<rparr>)
      else data)"

definition headingLevel :: "string \<Rightarrow> int" where
  "headingLevel tag =
     (if tag = ''h1'' then 1 else if tag = ''h2'' then 2 else if tag = ''h3'' then 3
      else if tag = ''h4'' then 4 else if tag = ''h5'' then 5 else if tag = ''h6'' then 6
      else 0)"

definition extractHeading :: "'u stdlib \<Rightarrow> Node \<Rightarrow> ScrapedData \<Rightarrow> ScrapedData" where
  "extractHeading env n data =
     (let level = headingLevel (Data n);
          text = TrimSpace env (getTextContent n)
      in if text \<noteq> [] then
           data\<lparr>Headings := Headings data @ [\<lparr>Level = level, HeadingText = text\<rparr>]\<rparr>
         else data)"

text \<open>
  The first half of \<open>extractData\<close>: what is done at the node itself, before its
  children are walked.
\<close>

definition extractNode :: "'u stdlib \<Rightarrow> Node \<Rightarrow> ScrapedData \<Rightarrow> string \<Rightarrow> ScrapedData" where
  "extractNode env n data baseURL =
     (if Type n = ElementNode then
        (if Data n = ''title'' then data\<lparr>Title := getTextContent n\<rparr>
         else if Data n = ''meta'' then extractMetaTag n data
         else if Data n = ''a'' then extractLink env n data baseURL
         else if Data n = ''img'' then extractImage env n data baseURL
         else if Data n \<in> {''h1'', ''h2'', ''h3'', ''h4'', ''h5'', ''h6''} then extractHeading env n data
         else data)
      else data)"

fun extractData :: "'u stdlib \<Rightarrow> Node \<Rightarrow> ScrapedData \<Rightarrow> string \<Rightarrow> ScrapedData" where
  "extractData env (Node ty d as cs) data baseURL =
     foldl (\<lambda>data' c. extractData env c data' baseURL)
       (extractNode env (Node ty d as cs) data baseURL) cs"

text \<open>
  The struct literal of \<open>scrapeWebPage\<close> from which extraction starts: the fields it
  does not name have their zero value, the empty string.
\<close>

definition newScrapedData :: "string \<Rightarrow> ScrapedData" where
  "newScrapedData targetURL =
     \<lparr>URL = targetURL, Title = [], Description = [], Keywords = [], Links = [],
      MetaTags = Map.empty, Images = [], Headings = []\<rparr>"

section \<open>The anti-bot classifier\<close>

definition detectAntiBotService :: "Response \<Rightarrow> string" where
  "detectAntiBotService resp =
     (if Get (Header resp) ''Server'' = ''cloudflare'' \<or> Get (Header resp) ''CF-Ray'' \<noteq> [] then
        ''Cloudflare''
      else if Get (Header resp) ''X-Akamai-Transformed'' \<noteq> [] \<or> Get (Header resp) ''X-Akamai-Session-Info'' \<noteq> [] then
        ''Akamai''
      else if Get (Header resp) ''X-Amzn-RequestId'' \<noteq> [] \<or> Get (Header resp) ''X-Amzn-Trace-Id'' \<noteq> [] then
        ''AWS WAF''
      else if Get (Header resp) ''X-Iinfo'' \<noteq> [] \<or> Get (Header resp) ''X-CDN'' = ''Incapsula'' then
        ''Imperva/Incapsula''
      else if Get (Header resp) ''X-DataDome'' \<noteq> [] then
        ''DataDome''
      else if Get (Header resp) ''X-Sucuri-ID'' \<noteq> [] \<or> Get (Header resp) ''X-Sucuri-Cache'' \<noteq> [] then
        ''Sucuri''
      else if Contains (Get (Header resp) ''Server'') ''PerimeterX'' then
        ''PerimeterX''
      else [])"

section \<open>Fetching and the handler\<close>

text \<open>
  \<open>scrapeWebPage\<close> from the response on, up to the body being read: the error's
  message on the left, the body on the right. Errors are modelled by their messages.
  The writes to the log, and the read of the body that only feeds the log, do not
  change what is returned and are left out. The message of a refused status is passed
  to \<open>fmt.Errorf\<close> as the format; it holds the digits of the code and one of the
  fixed labels, hence no verb, and is returned as it is.
\<close>

definition checkResponse :: "Response \<Rightarrow> string + string" where
  "checkResponse resp =
     (if StatusCode resp \<noteq> 200 then
        (let antiBotInfo = detectAntiBotService resp;
             errorMsg = ''unexpected status code: '' @ itoa (StatusCode resp)
         in Inl (if antiBotInfo \<noteq> [] then errorMsg @ '' (detected: '' @ antiBotInfo @ '')''
                 else errorMsg))
      else
        (let contentType = Get (Header resp) ''Content-Type'' in
         if \<not> Contains contentType ''text/html'' then
           Inl (''content type is not HTML: '' @ contentType)
         else
           (case Body resp of
              Inl err \<Rightarrow> Inl (''failed to read response body: '' @ err)
            | Inr body \<Rightarrow> Inr body)))"

definition fetchBody :: "'u stdlib \<Rightarrow> string \<Rightarrow> string + string" where
  "fetchBody env targetURL =
     (case NewRequest env targetURL of
        Some err \<Rightarrow> Inl (''failed to create request: '' @ err)
      | None \<Rightarrow>
          (case clientDo env targetURL of
             Inl err \<Rightarrow> Inl (''failed to fetch URL: '' @ err)
           | Inr resp \<Rightarrow> checkResponse resp))"

definition scrapeWebPage :: "'u stdlib \<Rightarrow> string \<Rightarrow> string + ScrapedData" where
  "scrapeWebPage env targetURL =
     (case fetchBody env targetURL of
        Inl err \<Rightarrow> Inl err
      | Inr body \<Rightarrow>
          (case htmlParse env body of
             Inl err \<Rightarrow> Inl (''failed to parse HTML: '' @ err)
           | Inr doc \<Rightarrow> Inr (extractData env doc (newScrapedData targetURL) targetURL)))"

text \<open>What the handler writes: a status with an error body, or a status with the data.\<close>

datatype Reply = ErrorReply int ErrorResponse | DataReply int ScrapedData

definition sendError :: "int \<Rightarrow> string \<Rightarrow> string \<Rightarrow> Reply" where
  "sendError statusCode errorType message = ErrorReply statusCode \<lparr>Error = errorType, Message = message\<rparr>"

text \<open>
  The validation step of \<open>scrapeHandler\<close>: the reply it sends when it rejects the
  string, \<open>None\<close> when the handler goes on.
\<close>

definition validateURL :: "'u stdlib \<Rightarrow> string \<Rightarrow> Reply option" where
  "validateURL env targetURL =
     (case urlParse env targetURL of
        Inl err \<Rightarrow> Some (sendError 400 ''invalid_url'' ''URL must be a valid http or https URL'')
      | Inr parsedURL \<Rightarrow>
          if urlScheme env parsedURL \<noteq> ''http'' \<and> urlScheme env parsedURL \<noteq> ''https'' then
            Some (sendError 400 ''invalid_url'' ''URL must be a valid http or https URL'')
          else None)"

text \<open>
  \<open>scrapeHandler\<close>, on the request's method and the value of its query parameter
  \<open>url\<close> (empty when the parameter is missing).
\<close>

definition scrapeHandler :: "'u stdlib \<Rightarrow> string \<Rightarrow> string \<Rightarrow> Reply" where
  "scrapeHandler env Method targetURL =
     (if Method \<noteq> ''GET'' then
        sendError 405 ''method_not_allowed'' ''Only GET method is allowed''
      else if targetURL = [] then
        sendError 400 ''missing_url'' ''URL parameter is required''
      else
        (case validateURL env targetURL of
           Some reply \<Rightarrow> reply
         | None \<Rightarrow>
             (case scrapeWebPage env targetURL of
                Inl err \<Rightarrow> sendError 500 ''scrape_failed'' (''Failed to scrape URL: '' @ err)
              | Inr data \<Rightarrow> DataReply 200 data)))"

section \<open>Document order\<close>

text \<open>The nodes of a tree in pre-order: a node, then its children's subtrees in order.\<close>

fun preorder :: "Node \<Rightarrow> Node list" where
  "preorder (Node ty d as cs) = Node ty d as cs # concat (map preorder cs)"

definition isElement :: "string \<Rightarrow> Node \<Rightarrow> bool" where
  "isElement tag n = (Type n = ElementNode \<and> Data n = tag)"

section \<open>An instance of the library functions\<close>

text \<open>
  A small instance of the parameters, on which the model runs on examples. URLs are
  kept as strings; a string parses when it has no space; the scheme is what precedes
  the first colon, if there is one; a reference with a scheme resolves to itself,
  another one is appended to the base. \<open>TrimSpace\<close> drops the ASCII white space
  at both ends.
\<close>

definition isSpace :: "char \<Rightarrow> bool" where
  "isSpace c = (c \<in> set [CHR '' '', CHR 0x09, CHR 0x0A, CHR 0x0B, CHR 0x0C, CHR 0x0D])"

definition trimASCII :: "string \<Rightarrow> string" where
  "trimASCII s = rev (dropWhile isSpace (rev (dropWhile isSpace s)))"

definition schemeOf :: "string \<Rightarrow> string" where
  "schemeOf s = (if CHR '':'' \<in> set s then takeWhile (\<lambda>c. c \<noteq> CHR '':'') s else [])"

definition exampleEnv :: "(string \<rightharpoonup> Response) \<Rightarrow> string stdlib" where
  "exampleEnv net =
     \<lparr>urlParse = (\<lambda>s. if CHR '' '' \<in> set s then Inl ''invalid character in URL'' else Inr s),
      urlScheme = schemeOf,
      ResolveReference = (\<lambda>base ref. if schemeOf ref \<noteq> [] then ref else base @ ref),
      urlString = (\<lambda>u. u),
      TrimSpace = trimASCII,
      htmlParse = (\<lambda>body. Inl ''no parser''),
      NewRequest = (\<lambda>u. None),
      clientDo = (\<lambda>u. case net u of None \<Rightarrow> Inl ''no such host'' | Some resp \<Rightarrow> Inr resp)\<rparr>"

section \<open>The claims in the words of the specification\<close>

text \<open>
  The definitions of this section do not come from the source: they say what the
  specification says, and the theorems below compare the source's functions with them.
\<close>

text \<open>The tags of the heading elements.\<close>

definition isHeadingTag :: "string \<Rightarrow> bool" where
  "isHeadingTag tag = (tag \<in> {''h1'', ''h2'', ''h3'', ''h4'', ''h5'', ''h6''})"

text \<open>
  An \<open>a\<close> element whose first \<open>href\<close> attribute exists and has a non-empty value, and
  the link recorded for it.
\<close>

definition linked :: "Node \<Rightarrow> bool" where
  "linked m = (isElement ''a'' m \<and>
     (case find (\<lambda>a. Key a = ''href'') (Attr m) of None \<Rightarrow> False | Some a \<Rightarrow> Val a \<noteq> []))"

definition linkOf :: "'u stdlib \<Rightarrow> string \<Rightarrow> Node \<Rightarrow> Link" where
  "linkOf env b m = \<lparr>Href = resolveURL env b (firstAttr ''href'' (Attr m)),
                     LinkText = TrimSpace env (getTextContent m)\<rparr>"

text \<open>An \<open>img\<close> element whose first \<open>src\<close> attribute exists and has a non-empty value.\<close>

definition pictured :: "Node \<Rightarrow> bool" where
  "pictured m = (isElement ''img'' m \<and>
     (case find (\<lambda>a. Key a = ''src'') (Attr m) of None \<Rightarrow> False | Some a \<Rightarrow> Val a \<noteq> []))"

text \<open>A heading element whose trimmed text is not empty, and the heading recorded for it.\<close>

definition headed :: "'u stdlib \<Rightarrow> Node \<Rightarrow> bool" where
  "headed env m = (Type m = ElementNode \<and> isHeadingTag (Data m) \<and> TrimSpace env (getTextContent m) \<noteq> [])"

definition headingOf :: "'u stdlib \<Rightarrow> Node \<Rightarrow> Heading" where
  "headingOf env m = \<lparr>Level = headingLevel (Data m), HeadingText = TrimSpace env (getTextContent m)\<rparr>"

text \<open>
  The value of the last attribute with a given key, the empty string when no attribute
  has the key.
\<close>

definition lastValue :: "string \<Rightarrow> Attribute list \<Rightarrow> string" where
  "lastValue k as =
     (if filter (\<lambda>a. Key a = k) as = [] then []
      else Val (last (filter (\<lambda>a. Key a = k) as)))"

text \<open>
  The three values \<open>extractMetaTag\<close> reads from an element, the key under which it
  stores the content (the name when it is not empty, the property otherwise), and the
  \<open>meta\<close> and \<open>title\<close> elements of a tree in document order.
\<close>

definition metaName :: "Node \<Rightarrow> string" where
  "metaName m = fst (metaAttrs (Attr m))"

definition metaProperty :: "Node \<Rightarrow> string" where
  "metaProperty m = fst (snd (metaAttrs (Attr m)))"

definition metaContent :: "Node \<Rightarrow> string" where
  "metaContent m = snd (snd (metaAttrs (Attr m)))"

definition metaKey :: "Node \<Rightarrow> string" where
  "metaKey m = (if metaName m \<noteq> [] then metaName m else metaProperty m)"

definition metaElements :: "Node \<Rightarrow> Node list" where
  "metaElements n = filter (isElement ''meta'') (preorder n)"

definition titleElements :: "Node \<Rightarrow> Node list" where
  "titleElements n = filter (isElement ''title'') (preorder n)"

text \<open>
  The seven rules of the classifier in the order of the specification, each a test on
  the headers with its label, and the label of the first rule that matches (the empty
  string, no label, when none does). A header counts as present when \<open>Get\<close> returns a
  non-empty value for it.
\<close>

definition antiBotRules :: "((Header \<Rightarrow> bool) \<times> string) list" where
  "antiBotRules =
     [(\<lambda>h. Get h ''Server'' = ''cloudflare'' \<or> Get h ''CF-Ray'' \<noteq> [], ''Cloudflare''),
      (\<lambda>h. Get h ''X-Akamai-Transformed'' \<noteq> [] \<or> Get h ''X-Akamai-Session-Info'' \<noteq> [], ''Akamai''),
      (\<lambda>h. Get h ''X-Amzn-RequestId'' \<noteq> [] \<or> Get h ''X-Amzn-Trace-Id'' \<noteq> [], ''AWS WAF''),
      (\<lambda>h. Get h ''X-Iinfo'' \<noteq> [] \<or> Get h ''X-CDN'' = ''Incapsula'', ''Imperva/Incapsula''),
      (\<lambda>h. Get h ''X-DataDome'' \<noteq> [], ''DataDome''),
      (\<lambda>h. Get h ''X-Sucuri-ID'' \<noteq> [] \<or> Get h ''X-Sucuri-Cache'' \<noteq> [], ''Sucuri''),
      (\<lambda>h. Contains (Get h ''Server'') ''PerimeterX'', ''PerimeterX'')]"

definition firstMatch :: "((Header \<Rightarrow> bool) \<times> string) list \<Rightarrow> Header \<Rightarrow> string" where
  "firstMatch rules h = (case find (\<lambda>rule. fst rule h) rules of None \<Rightarrow> [] | Some rule \<Rightarrow> snd rule)"

section \<open>Example inputs\<close>

definition element :: "string \<Rightarrow> Attribute list \<Rightarrow> Node list \<Rightarrow> Node" where
  "element tag as cs = Node ElementNode tag as cs"

definition textNode :: "string \<Rightarrow> Node" where
  "textNode s = Node TextNode s [] []"

definition attr :: "string \<Rightarrow> string \<Rightarrow> Attribute" where
  "attr k v = \<lparr>Namespace = [], Key = k, Val = v\<rparr>"

text \<open>The page of the specification's end-to-end example.\<close>

definition examplePage :: Node where
  "examplePage =
     Node DocumentNode [] []
       [element ''html'' []
          [element ''head'' [] [element ''title'' [] [textNode ''T'']],
           element ''body'' []
             [element ''h1'' [] [textNode ''H''],
              element ''img'' [attr ''src'' ''i.png''] [],
              element ''a'' [attr ''href'' ''a.html''] [textNode ''A'']]]]"

definition twoTitles :: Node where
  "twoTitles =
     element ''html'' []
       [element ''head'' [] [element ''title'' [] [textNode '' A '']],
        element ''body'' [] [element ''title'' [] [textNode ''B'', element ''b'' [] [textNode '' c '']]]]"

definition dupLink :: Node where
  "dupLink = element ''a'' [attr ''href'' ''/first'', attr ''href'' ''/second''] [textNode ''t'']"

definition dupImage :: Node where
  "dupImage = element ''img'' [attr ''src'' ''/1.png'', attr ''src'' ''/2.png''] []"

definition dupMeta :: Node where
  "dupMeta =
     element ''meta''
       [attr ''name'' ''x'', attr ''property'' ''p1'', attr ''content'' ''1'',
        attr ''name'' ''description'', attr ''property'' ''p2'', attr ''content'' ''2''] []"

definition dupProp :: Node where
  "dupProp =
     element ''meta''
       [attr ''property'' ''p1'', attr ''content'' ''1'',
        attr ''property'' ''og:title'', attr ''content'' ''2''] []"

definition anchors :: Node where
  "anchors =
     element ''body'' []
       [element ''a'' [attr ''data-href'' ''/z''] [textNode ''t''],
        element ''a'' [attr ''href'' []] [textNode ''x''],
        element ''a'' [attr ''href'' ''/y''] []]"

definition headings :: Node where
  "headings =
     element ''body'' []
       [element ''h2'' [] [textNode ''  ''],
        element ''h3'' [] [textNode '' Hi ''],
        element ''h7'' [] [textNode ''x''],
        element ''h6'' [] [textNode ''a'', element ''em'' [] [textNode ''b'']]]"

definition metaA :: Node where
  "metaA = element ''meta'' [attr ''name'' ''description'', attr ''content'' ''A''] []"

definition metaB :: Node where
  "metaB = element ''meta'' [attr ''name'' ''description'', attr ''content'' ''B''] []"

definition metaBare :: Node where
  "metaBare = element ''meta'' [attr ''name'' ''description''] []"

definition metaProp :: Node where
  "metaProp = element ''meta'' [attr ''property'' ''description'', attr ''content'' ''C''] []"

definition twoDescriptions :: Node where
  "twoDescriptions = element ''head'' [] [metaA, metaB]"

definition collidingMetas :: Node where
  "collidingMetas = element ''head'' [] [metaA, metaB, metaProp]"

definition emptyRayResponse :: Response where
  "emptyRayResponse = \<lparr>StatusCode = 403, Header = [''CF-Ray'' \<mapsto> [[]]], Body = Inr []\<rparr>"

definition rayResponse :: Response where
  "rayResponse =
     \<lparr>StatusCode = 503, Header = [''CF-Ray'' \<mapsto> [''abc''], ''X-Sucuri-ID'' \<mapsto> [''7'']], Body = Inr []\<rparr>"

definition createdResponse :: Response where
  "createdResponse =
     \<lparr>StatusCode = 201, Header = [''Content-Type'' \<mapsto> [''text/html'']], Body = Inr ''<p>x</p>''\<rparr>"

definition brokenBodyResponse :: Response where
  "brokenBodyResponse =
     \<lparr>StatusCode = 200, Header = [''Content-Type'' \<mapsto> [''text/html'']], Body = Inl ''unexpected EOF''\<rparr>"

definition jsonResponse :: Response where
  "jsonResponse =
     \<lparr>StatusCode = 200, Header = [''Content-Type'' \<mapsto> [''application/json'']], Body = Inr ''{}''\<rparr>"

definition htmlResponse :: Response where
  "htmlResponse =
     \<lparr>StatusCode = 200, Header = [''Content-Type'' \<mapsto> [''text/html; charset=UTF-8'']],
      Body = Inr ''<p>x</p>''\<rparr>"

section \<open>Lemmas on the traversal\<close>

text \<open>The definitions that running the examples unfolds.\<close>

lemmas example_defs =
  exampleEnv_def schemeOf_def trimASCII_def isSpace_def element_def textNode_def attr_def
  newScrapedData_def resolveURL_def

lemma foldl_append_concat: "foldl (\<lambda>text c. text @ f c) acc cs = acc @ concat (map f cs)"
  by (induction cs arbitrary: acc) simp_all

lemma getTextContent_unfold:
  "getTextContent n = (if Type n = TextNode then Data n else concat (map getTextContent (Children n)))"
  by (cases n) (simp add: foldl_append_concat)

lemma foldl_children_preorder:
  assumes "\<And>c d. c \<in> set cs \<Longrightarrow> f c d = foldl step d (preorder c)"
  shows "foldl (\<lambda>d c. f c d) d0 cs = foldl step d0 (concat (map preorder cs))"
  using assms by (induction cs arbitrary: d0) simp_all

text \<open>The traversal applies \<open>extractNode\<close> to the nodes in document order.\<close>

lemma extractData_preorder:
  "extractData env n data baseURL = foldl (\<lambda>d m. extractNode env m d baseURL) data (preorder n)"
proof (induction n arbitrary: data)
  case (Node ty d as cs)
  have "foldl (\<lambda>d' c. extractData env c d' baseURL) d0 cs
        = foldl (\<lambda>d m. extractNode env m d baseURL) d0 (concat (map preorder cs))" for d0
    by (rule foldl_children_preorder) (simp add: Node.IH)
  then show ?case by simp
qed

text \<open>A field to which some nodes append collects them in order.\<close>

lemma foldl_collect:
  assumes "\<And>m d. sel (step d m) = (if P m then sel d @ [f m] else sel d)"
  shows "sel (foldl step d ns) = sel d @ map f (filter P ns)"
  by (induction ns rule: rev_induct) (simp_all add: assms)

text \<open>A field that some nodes overwrite holds what the last of them wrote.\<close>

lemma foldl_last_wins:
  assumes "\<And>m d. sel (step d m) = (if P m then f m else sel d)"
  shows "sel (foldl step d ns) = (if filter P ns = [] then sel d else f (last (filter P ns)))"
  by (induction ns rule: rev_induct) (simp_all add: assms)

subsection \<open>Attribute scans\<close>

lemma firstAttr_decomp:
  "\<forall>x\<in>set xs. Key x \<noteq> k \<Longrightarrow> Key a = k \<Longrightarrow> firstAttr k (xs @ a # ys) = Val a"
  by (induction xs) simp_all

lemma firstAttr_absent: "\<forall>x\<in>set as. Key x \<noteq> k \<Longrightarrow> firstAttr k as = []"
  by (induction as) simp_all

lemma firstAttr_find:
  "firstAttr k as = (case find (\<lambda>a. Key a = k) as of None \<Rightarrow> [] | Some a \<Rightarrow> Val a)"
  by (induction as) simp_all

lemma firstAttr_member:
  "find (\<lambda>a. Key a = k) as \<noteq> None \<Longrightarrow> \<exists>a\<in>set as. firstAttr k as = Val a"
  by (induction as) auto

lemma metaAttrStep_components:
  "metaAttrStep (n, p, c) a =
     (if Key a = ''name'' then Val a else n,
      if Key a = ''property'' then Val a else p,
      if Key a = ''content'' then Val a else c)"
  by (simp add: metaAttrStep_def)

text \<open>The loop of \<open>extractMetaTag\<close> keeps, for each key, the first value from the end.\<close>

lemma metaAttrs_last:
  "metaAttrs as =
     (firstAttr ''name'' (rev as), firstAttr ''property'' (rev as), firstAttr ''content'' (rev as))"
  unfolding metaAttrs_def
  by (induction as rule: rev_induct) (simp_all add: metaAttrStep_components)

lemma firstAttr_rev_decomp:
  "\<forall>y\<in>set ys. Key y \<noteq> k \<Longrightarrow> Key a = k \<Longrightarrow> firstAttr k (rev (xs @ a # ys)) = Val a"
  using firstAttr_decomp [of "rev ys" k a "rev xs"] by simp

lemma lastValue_firstAttr_rev: "lastValue k as = firstAttr k (rev as)"
  by (induction as rule: rev_induct) (auto simp: lastValue_def split: if_splits)

lemma lastValue_decomp:
  "\<forall>y\<in>set ys. Key y \<noteq> k \<Longrightarrow> Key a = k \<Longrightarrow> lastValue k (xs @ a # ys) = Val a"
  unfolding lastValue_firstAttr_rev by (rule firstAttr_rev_decomp)

lemma lastValue_absent: "\<forall>x\<in>set as. Key x \<noteq> k \<Longrightarrow> lastValue k as = []"
  by (simp add: lastValue_def filter_empty_conv)

lemma metaAttrs_lastValue:
  "metaAttrs as = (lastValue ''name'' as, lastValue ''property'' as, lastValue ''content'' as)"
  by (simp add: metaAttrs_last lastValue_firstAttr_rev)

text \<open>\<open>extractMetaTag\<close> in terms of the last values of the three keys.\<close>

lemma extractMetaTag_lastValue:
  "extractMetaTag n d =
     (if lastValue ''name'' (Attr n) \<noteq> [] then
        d\<lparr>MetaTags := (MetaTags d)(lastValue ''name'' (Attr n) \<mapsto> lastValue ''content'' (Attr n)),
          Description := (if lastValue ''name'' (Attr n) = ''description''
                          then lastValue ''content'' (Attr n) else Description d),
          Keywords := (if lastValue ''name'' (Attr n) = ''keywords''
                       then lastValue ''content'' (Attr n) else Keywords d)\<rparr>
      else if lastValue ''property'' (Attr n) \<noteq> [] then
        d\<lparr>MetaTags := (MetaTags d)(lastValue ''property'' (Attr n) \<mapsto> lastValue ''content'' (Attr n))\<rparr>
      else d)"
  by (simp add: extractMetaTag_def metaAttrs_lastValue Let_def)

subsection \<open>What one node does to each field\<close>

lemma Title_extractNode:
  "Title (extractNode env m d b) = (if isElement ''title'' m then getTextContent m else Title d)"
  by (auto simp: extractNode_def isElement_def extractMetaTag_def extractLink_def extractImage_def
      extractHeading_def Let_def split: prod.splits)

lemma Links_extractNode:
  "Links (extractNode env m d b) = (if linked m then Links d @ [linkOf env b m] else Links d)"
  by (auto simp: extractNode_def isElement_def extractMetaTag_def extractLink_def extractImage_def
      extractHeading_def Let_def linked_def linkOf_def firstAttr_find split: prod.splits option.splits)

lemma Images_extractNode:
  "Images (extractNode env m d b) =
     (if pictured m then Images d @ [resolveURL env b (firstAttr ''src'' (Attr m))] else Images d)"
  by (auto simp: extractNode_def isElement_def extractMetaTag_def extractLink_def extractImage_def
      extractHeading_def Let_def pictured_def firstAttr_find split: prod.splits option.splits)

lemma Headings_extractNode:
  "Headings (extractNode env m d b) =
     (if headed env m then Headings d @ [headingOf env m] else Headings d)"
  by (auto simp: extractNode_def isElement_def extractMetaTag_def extractLink_def extractImage_def
      extractHeading_def Let_def headed_def headingOf_def isHeadingTag_def split: prod.splits)

lemma extractMetaTag_named:
  "metaName m \<noteq> [] \<Longrightarrow>
   extractMetaTag m d =
     d\<lparr>MetaTags := (MetaTags d)(metaName m \<mapsto> metaContent m),
       Description := (if metaName m = ''description'' then metaContent m else Description d),
       Keywords := (if metaName m = ''keywords'' then metaContent m else Keywords d)\<rparr>"
  by (cases "metaAttrs (Attr m)") (simp add: extractMetaTag_def metaName_def metaContent_def Let_def)

lemma extractMetaTag_property:
  "metaName m = [] \<Longrightarrow> metaProperty m \<noteq> [] \<Longrightarrow>
   extractMetaTag m d = d\<lparr>MetaTags := (MetaTags d)(metaProperty m \<mapsto> metaContent m)\<rparr>"
  by (cases "metaAttrs (Attr m)")
     (simp add: extractMetaTag_def metaName_def metaContent_def metaProperty_def)

lemma extractMetaTag_none:
  "metaName m = [] \<Longrightarrow> metaProperty m = [] \<Longrightarrow> extractMetaTag m d = d"
  by (cases "metaAttrs (Attr m)") (simp add: extractMetaTag_def metaName_def metaProperty_def)

lemma extractNode_not_meta:
  "\<not> isElement ''meta'' m \<Longrightarrow>
   Description (extractNode env m d b) = Description d \<and>
   Keywords (extractNode env m d b) = Keywords d \<and>
   MetaTags (extractNode env m d b) = MetaTags d"
  by (auto simp: extractNode_def isElement_def extractLink_def extractImage_def
      extractHeading_def Let_def)

lemma extractNode_meta: "isElement ''meta'' m \<Longrightarrow> extractNode env m d b = extractMetaTag m d"
  by (simp add: extractNode_def isElement_def)

lemma Description_extractNode:
  "Description (extractNode env m d b) =
     (if isElement ''meta'' m \<and> metaName m = ''description'' then metaContent m else Description d)"
proof (cases "isElement ''meta'' m")
  case True
  then show ?thesis
    by (cases "metaName m = []"; cases "metaProperty m = []")
       (simp_all add: extractNode_meta extractMetaTag_named extractMetaTag_property extractMetaTag_none)
qed (simp add: extractNode_not_meta)

lemma Keywords_extractNode:
  "Keywords (extractNode env m d b) =
     (if isElement ''meta'' m \<and> metaName m = ''keywords'' then metaContent m else Keywords d)"
proof (cases "isElement ''meta'' m")
  case True
  then show ?thesis
    by (cases "metaName m = []"; cases "metaProperty m = []")
       (simp_all add: extractNode_meta extractMetaTag_named extractMetaTag_property extractMetaTag_none)
qed (simp add: extractNode_not_meta)

lemma MetaTags_extractNode:
  "k \<noteq> [] \<Longrightarrow> MetaTags (extractNode env m d b) k =
     (if isElement ''meta'' m \<and> metaKey m = k then Some (metaContent m) else MetaTags d k)"
proof (cases "isElement ''meta'' m")
  case True
  assume "k \<noteq> []"
  with True show ?thesis
    by (cases "metaName m = []"; cases "metaProperty m = []")
       (auto simp: extractNode_meta extractMetaTag_named extractMetaTag_property extractMetaTag_none
          metaKey_def)
qed (simp add: extractNode_not_meta)

subsection \<open>What the traversal does to each field\<close>

lemma Title_extractData:
  "Title (extractData env n d b) =
     (if titleElements n = [] then Title d else getTextContent (last (titleElements n)))"
  unfolding extractData_preorder titleElements_def
  by (rule foldl_last_wins) (rule Title_extractNode)

lemma Links_extractData:
  "Links (extractData env n d b) = Links d @ map (linkOf env b) (filter linked (preorder n))"
  unfolding extractData_preorder by (rule foldl_collect) (rule Links_extractNode)

lemma Images_extractData:
  "Images (extractData env n d b) =
     Images d @ map (\<lambda>m. resolveURL env b (firstAttr ''src'' (Attr m))) (filter pictured (preorder n))"
  unfolding extractData_preorder by (rule foldl_collect) (rule Images_extractNode)

lemma Headings_extractData:
  "Headings (extractData env n d b) =
     Headings d @ map (headingOf env) (filter (headed env) (preorder n))"
  unfolding extractData_preorder by (rule foldl_collect) (rule Headings_extractNode)

lemma filter_meta:
  "filter (\<lambda>m. isElement ''meta'' m \<and> P m) ns = filter P (filter (isElement ''meta'') ns)"
  by (simp add: conj_commute)

lemma Description_extractData:
  "Description (extractData env n d b) =
     (if filter (\<lambda>m. metaName m = ''description'') (metaElements n) = [] then Description d
      else metaContent (last (filter (\<lambda>m. metaName m = ''description'') (metaElements n))))"
  unfolding extractData_preorder metaElements_def filter_meta [symmetric]
  by (rule foldl_last_wins) (rule Description_extractNode)

lemma Keywords_extractData:
  "Keywords (extractData env n d b) =
     (if filter (\<lambda>m. metaName m = ''keywords'') (metaElements n) = [] then Keywords d
      else metaContent (last (filter (\<lambda>m. metaName m = ''keywords'') (metaElements n))))"
  unfolding extractData_preorder metaElements_def filter_meta [symmetric]
  by (rule foldl_last_wins) (rule Keywords_extractNode)

lemma MetaTags_extractData:
  assumes "k \<noteq> []"
  shows "MetaTags (extractData env n d b) k =
     (if filter (\<lambda>m. metaKey m = k) (metaElements n) = [] then MetaTags d k
      else Some (metaContent (last (filter (\<lambda>m. metaKey m = k) (metaElements n)))))"
  unfolding extractData_preorder metaElements_def filter_meta [symmetric]
  using foldl_last_wins [where sel = "\<lambda>d. MetaTags d k" and step = "\<lambda>d m. extractNode env m d b"
      and P = "\<lambda>m. isElement ''meta'' m \<and> metaKey m = k" and f = "\<lambda>m. Some (metaContent m)",
      OF MetaTags_extractNode [OF assms]]
  by simp

lemma resolveURL_nonempty:
  assumes "\<forall>base ref. urlParse env b = Inr base \<longrightarrow> urlString env (ResolveReference env base ref) \<noteq> []"
    and "h \<noteq> []"
  shows "resolveURL env b h \<noteq> []"
  using assms by (auto simp: resolveURL_def split: sum.splits)

lemma linked_firstAttr: "linked m \<Longrightarrow> firstAttr ''href'' (Attr m) \<noteq> []"
  by (auto simp: linked_def firstAttr_find split: option.splits)

section \<open>The fetcher\<close>

text \<open>
  Claim C1, as amended. The response check returns the body exactly when the status code
  is 200 (not any 2xx code), the \<open>Content-Type\<close> contains \<open>text/html\<close> and reading the
  body succeeds. Every other status code fails with a message that carries the code and,
  when the classifier found one, the label of the protection service. Status 200 with
  another content type fails with a message that quotes the content type. In all these
  failures the outcome of \<open>scrapeWebPage\<close> is the same whatever the parser is, so no
  parse and no traversal takes part in it, and the handler reports \<open>scrape_failed\<close>.
\<close>

theorem checkResponse_body_iff_200_html:
  "(checkResponse resp = Inr body \<longleftrightarrow>
      StatusCode resp = 200 \<and> Contains (Get (Header resp) ''Content-Type'') ''text/html''
      \<and> Body resp = Inr body)
   \<and> (StatusCode resp \<noteq> 200 \<longrightarrow>
        checkResponse resp =
          Inl (''unexpected status code: '' @ itoa (StatusCode resp) @
               (if detectAntiBotService resp \<noteq> []
                then '' (detected: '' @ detectAntiBotService resp @ '')'' else [])))
   \<and> (StatusCode resp = 200 \<and> \<not> Contains (Get (Header resp) ''Content-Type'') ''text/html'' \<longrightarrow>
        checkResponse resp = Inl (''content type is not HTML: '' @ Get (Header resp) ''Content-Type''))
   \<and> (NewRequest env u = None \<and> clientDo env u = Inr resp \<and> checkResponse resp = Inl msg \<longrightarrow>
        scrapeWebPage (env\<lparr>htmlParse := parser\<rparr>) u = Inl msg
        \<and> (u \<noteq> [] \<and> validateURL env u = None \<longrightarrow>
             scrapeHandler env ''GET'' u =
               sendError 500 ''scrape_failed'' (''Failed to scrape URL: '' @ msg)))"
  by (auto simp: checkResponse_def Let_def scrapeWebPage_def fetchBody_def scrapeHandler_def
      split: sum.splits)

theorem checkResponse_body_iff_200_html_witness:
  "checkResponse htmlResponse = Inr ''<p>x</p>''
   \<and> checkResponse jsonResponse = Inl ''content type is not HTML: application/json''
   \<and> checkResponse rayResponse = Inl ''unexpected status code: 503 (detected: Cloudflare)''
   \<and> scrapeHandler (exampleEnv [''http://h/'' \<mapsto> rayResponse]) ''GET'' ''http://h/'' =
       sendError 500 ''scrape_failed''
         ''Failed to scrape URL: unexpected status code: 503 (detected: Cloudflare)''"
proof -
  have html: "StatusCode htmlResponse = 200"
      "Contains (Get (Header htmlResponse) ''Content-Type'') ''text/html''"
      "Body htmlResponse = Inr ''<p>x</p>''"
    by (simp_all add: htmlResponse_def Get_def)
  have json: "StatusCode jsonResponse = 200"
      "\<not> Contains (Get (Header jsonResponse) ''Content-Type'') ''text/html''"
      "Get (Header jsonResponse) ''Content-Type'' = ''application/json''"
    by (simp_all add: jsonResponse_def Get_def)
  have ray: "StatusCode rayResponse \<noteq> 200" "itoa (StatusCode rayResponse) = ''503''"
      "detectAntiBotService rayResponse = ''Cloudflare''"
    by (simp_all add: rayResponse_def Get_def detectAntiBotService_def itoa_def digits.simps)
  have net: "NewRequest (exampleEnv [''http://h/'' \<mapsto> rayResponse]) ''http://h/'' = None"
      "clientDo (exampleEnv [''http://h/'' \<mapsto> rayResponse]) ''http://h/'' = Inr rayResponse"
      "validateURL (exampleEnv [''http://h/'' \<mapsto> rayResponse]) ''http://h/'' = None"
    by (simp_all add: exampleEnv_def validateURL_def schemeOf_def)
  have 1: "checkResponse htmlResponse = Inr ''<p>x</p>''"
    using checkResponse_body_iff_200_html [where resp = htmlResponse and body = "''<p>x</p>''"
        and env = "exampleEnv Map.empty" and u = "[]" and msg = "[]"
        and parser = "htmlParse (exampleEnv Map.empty)"] html
    by blast
  have 2: "checkResponse jsonResponse = Inl ''content type is not HTML: application/json''"
    using checkResponse_body_iff_200_html [where resp = jsonResponse and body = "[]"
        and env = "exampleEnv Map.empty" and u = "[]" and msg = "[]"
        and parser = "htmlParse (exampleEnv Map.empty)"] json
    by simp
  have 3: "checkResponse rayResponse = Inl ''unexpected status code: 503 (detected: Cloudflare)''"
    using checkResponse_body_iff_200_html [where resp = rayResponse and body = "[]"
        and env = "exampleEnv Map.empty" and u = "[]" and msg = "[]"
        and parser = "htmlParse (exampleEnv Map.empty)"] ray
    by simp
  have 4: "scrapeHandler (exampleEnv [''http://h/'' \<mapsto> rayResponse]) ''GET'' ''http://h/'' =
       sendError 500 ''scrape_failed''
         ''Failed to scrape URL: unexpected status code: 503 (detected: Cloudflare)''"
    using checkResponse_body_iff_200_html [where resp = rayResponse
        and env = "exampleEnv [''http://h/'' \<mapsto> rayResponse]" and u = "''http://h/''"
        and msg = "''unexpected status code: 503 (detected: Cloudflare)''" and body = "[]"
        and parser = "htmlParse (exampleEnv [''http://h/'' \<mapsto> rayResponse])"] net 3
    by simp
  from 1 2 3 4 show ?thesis by blast
qed

text \<open>
  The claim as the specification states it, with any 2xx status, fails: a response with
  status 201 and an HTML content type is refused with its status code. A response with
  status 200 and an HTML content type whose body cannot be read fails too.
\<close>

theorem checkResponse_refuses_201:
  "checkResponse createdResponse = Inl ''unexpected status code: 201''
   \<and> checkResponse brokenBodyResponse = Inl ''failed to read response body: unexpected EOF''"
  by (simp add: checkResponse_def createdResponse_def brokenBodyResponse_def Get_def
      detectAntiBotService_def itoa_def digits.simps)

section \<open>The URL resolver\<close>

text \<open>
  Claim C2. \<open>resolveURL\<close> returns the string of the resolved reference when the base and
  the reference both parse, and the reference unchanged when either does not. Every
  \<open>href\<close> of a recorded link and every recorded image is \<open>resolveURL\<close> of an attribute
  value of a node of the tree, hence of one of these two forms. \<open>resolveURL\<close> and
  \<open>extractData\<close> are total functions: no outcome of the resolver stops the extraction.
\<close>

theorem resolveURL_resolved_or_verbatim:
  "resolveURL env base href =
     (case (urlParse env base, urlParse env href) of
        (Inr b, Inr r) \<Rightarrow> urlString env (ResolveReference env b r)
      | _ \<Rightarrow> href)
   \<and> (\<forall>l\<in>set (Links (extractData env n (newScrapedData u) base)).
        \<exists>m\<in>set (preorder n). \<exists>a\<in>set (Attr m). Href l = resolveURL env base (Val a))
   \<and> (\<forall>x\<in>set (Images (extractData env n (newScrapedData u) base)).
        \<exists>m\<in>set (preorder n). \<exists>a\<in>set (Attr m). x = resolveURL env base (Val a))"
proof (intro conjI ballI)
  show "resolveURL env base href =
     (case (urlParse env base, urlParse env href) of
        (Inr b, Inr r) \<Rightarrow> urlString env (ResolveReference env b r)
      | _ \<Rightarrow> href)"
    by (simp add: resolveURL_def split: sum.splits)
  show "\<exists>m\<in>set (preorder n). \<exists>a\<in>set (Attr m). Href l = resolveURL env base (Val a)"
    if "l \<in> set (Links (extractData env n (newScrapedData u) base))" for l
  proof -
    from that obtain m where m: "m \<in> set (preorder n)" "linked m" "l = linkOf env base m"
      by (auto simp: Links_extractData newScrapedData_def)
    from m(2) have "find (\<lambda>a. Key a = ''href'') (Attr m) \<noteq> None"
      by (auto simp: linked_def split: option.splits)
    from firstAttr_member [OF this]
    obtain a where "a \<in> set (Attr m)" "firstAttr ''href'' (Attr m) = Val a"
      by blast
    with m(1,3) show ?thesis
      by (intro bexI [of _ m] bexI [of _ a]) (simp_all add: linkOf_def)
  qed
  show "\<exists>m\<in>set (preorder n). \<exists>a\<in>set (Attr m). x = resolveURL env base (Val a)"
    if "x \<in> set (Images (extractData env n (newScrapedData u) base))" for x
  proof -
    from that obtain m where m: "m \<in> set (preorder n)" "pictured m"
      "x = resolveURL env base (firstAttr ''src'' (Attr m))"
      by (auto simp: Images_extractData newScrapedData_def)
    from m(2) have "find (\<lambda>a. Key a = ''src'') (Attr m) \<noteq> None"
      by (auto simp: pictured_def split: option.splits)
    from firstAttr_member [OF this]
    obtain a where "a \<in> set (Attr m)" "firstAttr ''src'' (Attr m) = Val a"
      by blast
    with m(1,3) show ?thesis
      by (intro bexI [of _ m] bexI [of _ a]) simp_all
  qed
qed

theorem resolveURL_resolved_or_verbatim_witness:
  "resolveURL (exampleEnv Map.empty) ''http://ex.com/p/'' ''a.html'' = ''http://ex.com/p/a.html''
   \<and> resolveURL (exampleEnv Map.empty) ''http://ex.com/p/'' ''a b.html'' = ''a b.html''
   \<and> resolveURL (exampleEnv Map.empty) ''no base'' ''a.html'' = ''a.html''
   \<and> Links (extractData (exampleEnv Map.empty) examplePage
        (newScrapedData ''http://ex.com/p/'') ''http://ex.com/p/'') =
       [\<lparr>Href = ''http://ex.com/p/a.html'', LinkText = ''A''\<rparr>]
   \<and> Images (extractData (exampleEnv Map.empty) examplePage
        (newScrapedData ''http://ex.com/p/'') ''http://ex.com/p/'') =
       [''http://ex.com/p/i.png'']"
proof -
  have parses: "urlParse (exampleEnv Map.empty) ''http://ex.com/p/'' = Inr ''http://ex.com/p/''"
      "urlParse (exampleEnv Map.empty) ''a.html'' = Inr ''a.html''"
      "urlParse (exampleEnv Map.empty) ''a b.html'' = Inl ''invalid character in URL''"
      "urlParse (exampleEnv Map.empty) ''no base'' = Inl ''invalid character in URL''"
      "urlString (exampleEnv Map.empty)
         (ResolveReference (exampleEnv Map.empty) ''http://ex.com/p/'' ''a.html'') = ''http://ex.com/p/a.html''"
    by (simp_all add: exampleEnv_def schemeOf_def)
  have 1: "resolveURL (exampleEnv Map.empty) ''http://ex.com/p/'' ''a.html'' = ''http://ex.com/p/a.html''"
    using resolveURL_resolved_or_verbatim [of "exampleEnv Map.empty" "''http://ex.com/p/''" "''a.html''"
        examplePage "''http://ex.com/p/''"] parses
    by simp
  have 2: "resolveURL (exampleEnv Map.empty) ''http://ex.com/p/'' ''a b.html'' = ''a b.html''"
    using resolveURL_resolved_or_verbatim [of "exampleEnv Map.empty" "''http://ex.com/p/''" "''a b.html''"
        examplePage "''http://ex.com/p/''"] parses
    by simp
  have 3: "resolveURL (exampleEnv Map.empty) ''no base'' ''a.html'' = ''a.html''"
    using resolveURL_resolved_or_verbatim [of "exampleEnv Map.empty" "''no base''" "''a.html''"
        examplePage "''http://ex.com/p/''"] parses
    by simp
  have 4: "Links (extractData (exampleEnv Map.empty) examplePage
        (newScrapedData ''http://ex.com/p/'') ''http://ex.com/p/'') =
       [\<lparr>Href = ''http://ex.com/p/a.html'', LinkText = ''A''\<rparr>]"
    unfolding Links_extractData
    by (simp add: examplePage_def linked_def linkOf_def isElement_def example_defs)
  have 5: "Images (extractData (exampleEnv Map.empty) examplePage
        (newScrapedData ''http://ex.com/p/'') ''http://ex.com/p/'') =
       [''http://ex.com/p/i.png'']"
    unfolding Images_extractData
    by (simp add: examplePage_def pictured_def isElement_def example_defs)
  from 1 2 3 4 5 show ?thesis by blast
qed

section \<open>The extractor\<close>

text \<open>
  Claim C3. When an attribute list holds a key several times, \<open>extractLink\<close> and
  \<open>extractImage\<close> use the first \<open>href\<close> and the first \<open>src\<close>: the attribute \<open>a\<close> with
  no such key before it, whatever follows. \<open>extractMetaTag\<close>, which is what the
  traversal does at a \<open>meta\<close> element, uses the last \<open>name\<close>, the last \<open>property\<close> and
  the last \<open>content\<close>: the attribute \<open>a\<close> with no such key after it, whatever precedes.
  The last name, when it is not empty, is the key under which the content is stored and
  the one that is compared with \<open>description\<close> and \<open>keywords\<close>; the last property is
  the key when the last name is empty; the last content is the value that is stored.
\<close>

theorem first_href_src_last_meta_attribute:
  assumes "Attr n = xs @ a # ys"
  shows "(Key a = ''href'' \<and> (\<forall>x\<in>set xs. Key x \<noteq> ''href'') \<longrightarrow>
            extractLink env n d b =
              (if Val a \<noteq> [] then
                 d\<lparr>Links := Links d @ [\<lparr>Href = resolveURL env b (Val a),
                                         LinkText = TrimSpace env (getTextContent n)\<rparr>]\<rparr>
               else d))
       \<and> (Key a = ''src'' \<and> (\<forall>x\<in>set xs. Key x \<noteq> ''src'') \<longrightarrow>
            extractImage env n d b =
              (if Val a \<noteq> [] then d\<lparr>Images := Images d @ [resolveURL env b (Val a)]\<rparr> else d))
       \<and> (Key a = ''name'' \<and> (\<forall>y\<in>set ys. Key y \<noteq> ''name'') \<and> Val a \<noteq> [] \<longrightarrow>
            extractMetaTag n d =
              d\<lparr>MetaTags := (MetaTags d)(Val a \<mapsto> lastValue ''content'' (Attr n)),
                Description := (if Val a = ''description'' then lastValue ''content'' (Attr n)
                                else Description d),
                Keywords := (if Val a = ''keywords'' then lastValue ''content'' (Attr n)
                             else Keywords d)\<rparr>)
       \<and> (Key a = ''property'' \<and> (\<forall>y\<in>set ys. Key y \<noteq> ''property'') \<and> Val a \<noteq> []
            \<and> lastValue ''name'' (Attr n) = [] \<longrightarrow>
            extractMetaTag n d =
              d\<lparr>MetaTags := (MetaTags d)(Val a \<mapsto> lastValue ''content'' (Attr n))\<rparr>)
       \<and> (Key a = ''content'' \<and> (\<forall>y\<in>set ys. Key y \<noteq> ''content'') \<longrightarrow>
            extractMetaTag n d =
              (if lastValue ''name'' (Attr n) \<noteq> [] then
                 d\<lparr>MetaTags := (MetaTags d)(lastValue ''name'' (Attr n) \<mapsto> Val a),
                   Description := (if lastValue ''name'' (Attr n) = ''description'' then Val a
                                   else Description d),
                   Keywords := (if lastValue ''name'' (Attr n) = ''keywords'' then Val a
                                else Keywords d)\<rparr>
               else if lastValue ''property'' (Attr n) \<noteq> [] then
                 d\<lparr>MetaTags := (MetaTags d)(lastValue ''property'' (Attr n) \<mapsto> Val a)\<rparr>
               else d))
       \<and> (Key a = k \<and> (\<forall>y\<in>set ys. Key y \<noteq> k) \<longrightarrow> lastValue k (Attr n) = Val a)
       \<and> (isElement ''meta'' n \<longrightarrow> extractNode env n d b = extractMetaTag n d)
       \<and> (Key a = ''name'' \<and> (\<forall>y\<in>set ys. Key y \<noteq> ''name'') \<longrightarrow>
            fst (metaAttrs (Attr n)) = Val a)
       \<and> (Key a = ''property'' \<and> (\<forall>y\<in>set ys. Key y \<noteq> ''property'') \<longrightarrow>
            fst (snd (metaAttrs (Attr n))) = Val a)
       \<and> (Key a = ''content'' \<and> (\<forall>y\<in>set ys. Key y \<noteq> ''content'') \<longrightarrow>
            snd (snd (metaAttrs (Attr n))) = Val a)"
proof (intro conjI impI)
  assume "Key a = ''href'' \<and> (\<forall>x\<in>set xs. Key x \<noteq> ''href'')"
  with assms show "extractLink env n d b =
      (if Val a \<noteq> [] then
         d\<lparr>Links := Links d @ [\<lparr>Href = resolveURL env b (Val a),
                                 LinkText = TrimSpace env (getTextContent n)\<rparr>]\<rparr>
       else d)"
    by (simp add: extractLink_def firstAttr_decomp Let_def)
next
  assume "Key a = ''src'' \<and> (\<forall>x\<in>set xs. Key x \<noteq> ''src'')"
  with assms show "extractImage env n d b =
      (if Val a \<noteq> [] then d\<lparr>Images := Images d @ [resolveURL env b (Val a)]\<rparr> else d)"
    by (simp add: extractImage_def firstAttr_decomp Let_def)
next
  assume h: "Key a = ''name'' \<and> (\<forall>y\<in>set ys. Key y \<noteq> ''name'') \<and> Val a \<noteq> []"
  with assms have "lastValue ''name'' (Attr n) = Val a" by (simp add: lastValue_decomp)
  with h show "extractMetaTag n d =
      d\<lparr>MetaTags := (MetaTags d)(Val a \<mapsto> lastValue ''content'' (Attr n)),
        Description := (if Val a = ''description'' then lastValue ''content'' (Attr n)
                        else Description d),
        Keywords := (if Val a = ''keywords'' then lastValue ''content'' (Attr n)
                     else Keywords d)\<rparr>"
    by (simp add: extractMetaTag_lastValue)
next
  assume h: "Key a = ''property'' \<and> (\<forall>y\<in>set ys. Key y \<noteq> ''property'') \<and> Val a \<noteq> []
      \<and> lastValue ''name'' (Attr n) = []"
  with assms have "lastValue ''property'' (Attr n) = Val a" by (simp add: lastValue_decomp)
  with h show "extractMetaTag n d =
      d\<lparr>MetaTags := (MetaTags d)(Val a \<mapsto> lastValue ''content'' (Attr n))\<rparr>"
    by (simp add: extractMetaTag_lastValue)
next
  assume "Key a = ''content'' \<and> (\<forall>y\<in>set ys. Key y \<noteq> ''content'')"
  with assms have "lastValue ''content'' (Attr n) = Val a" by (simp add: lastValue_decomp)
  then show "extractMetaTag n d =
      (if lastValue ''name'' (Attr n) \<noteq> [] then
         d\<lparr>MetaTags := (MetaTags d)(lastValue ''name'' (Attr n) \<mapsto> Val a),
           Description := (if lastValue ''name'' (Attr n) = ''description'' then Val a
                           else Description d),
           Keywords := (if lastValue ''name'' (Attr n) = ''keywords'' then Val a
                        else Keywords d)\<rparr>
       else if lastValue ''property'' (Attr n) \<noteq> [] then
         d\<lparr>MetaTags := (MetaTags d)(lastValue ''property'' (Attr n) \<mapsto> Val a)\<rparr>
       else d)"
    by (simp add: extractMetaTag_lastValue)
next
  assume "Key a = k \<and> (\<forall>y\<in>set ys. Key y \<noteq> k)"
  with assms show "lastValue k (Attr n) = Val a" by (simp add: lastValue_decomp)
next
  assume "isElement ''meta'' n"
  then show "extractNode env n d b = extractMetaTag n d" by (rule extractNode_meta)
next
  assume "Key a = ''name'' \<and> (\<forall>y\<in>set ys. Key y \<noteq> ''name'')"
  with assms show "fst (metaAttrs (Attr n)) = Val a"
    by (simp add: metaAttrs_lastValue lastValue_decomp)
next
  assume "Key a = ''property'' \<and> (\<forall>y\<in>set ys. Key y \<noteq> ''property'')"
  with assms show "fst (snd (metaAttrs (Attr n))) = Val a"
    by (simp add: metaAttrs_lastValue lastValue_decomp)
next
  assume "Key a = ''content'' \<and> (\<forall>y\<in>set ys. Key y \<noteq> ''content'')"
  with assms show "snd (snd (metaAttrs (Attr n))) = Val a"
    by (simp add: metaAttrs_lastValue lastValue_decomp)
qed

theorem first_href_src_last_meta_attribute_witness:
  "Links (extractLink (exampleEnv Map.empty) dupLink (newScrapedData ''http://h'') ''http://h'') =
     [\<lparr>Href = ''http://h/first'', LinkText = ''t''\<rparr>]
   \<and> Images (extractImage (exampleEnv Map.empty) dupImage (newScrapedData ''http://h'') ''http://h'') =
     [''http://h/1.png'']
   \<and> extractNode (exampleEnv Map.empty) dupMeta (newScrapedData ''http://h'') ''http://h'' =
       (newScrapedData ''http://h'')\<lparr>MetaTags := [''description'' \<mapsto> ''2''], Description := ''2''\<rparr>
   \<and> extractNode (exampleEnv Map.empty) dupProp (newScrapedData ''http://h'') ''http://h'' =
       (newScrapedData ''http://h'')\<lparr>MetaTags := [''og:title'' \<mapsto> ''2'']\<rparr>
   \<and> metaAttrs (Attr dupMeta) = (''description'', ''p2'', ''2'')"
proof -
  have 1: "extractLink (exampleEnv Map.empty) dupLink (newScrapedData ''http://h'') ''http://h'' =
      (newScrapedData ''http://h'')\<lparr>Links := Links (newScrapedData ''http://h'') @
         [\<lparr>Href = resolveURL (exampleEnv Map.empty) ''http://h'' ''/first'',
           LinkText = TrimSpace (exampleEnv Map.empty) (getTextContent dupLink)\<rparr>]\<rparr>"
    using first_href_src_last_meta_attribute [of dupLink "[]" "attr ''href'' ''/first''"
        "[attr ''href'' ''/second'']" "exampleEnv Map.empty" "newScrapedData ''http://h''" "''http://h''" "[]"]
    by (simp add: dupLink_def element_def attr_def)
  have 2: "extractImage (exampleEnv Map.empty) dupImage (newScrapedData ''http://h'') ''http://h'' =
      (newScrapedData ''http://h'')\<lparr>Images := Images (newScrapedData ''http://h'') @
         [resolveURL (exampleEnv Map.empty) ''http://h'' ''/1.png'']\<rparr>"
    using first_href_src_last_meta_attribute [of dupImage "[]" "attr ''src'' ''/1.png''"
        "[attr ''src'' ''/2.png'']" "exampleEnv Map.empty" "newScrapedData ''http://h''" "''http://h''" "[]"]
    by (simp add: dupImage_def element_def attr_def)
  have metas: "isElement ''meta'' dupMeta" "isElement ''meta'' dupProp"
    by (simp_all add: dupMeta_def dupProp_def element_def isElement_def)
  have content: "lastValue ''content'' (Attr dupMeta) = ''2''"
    using first_href_src_last_meta_attribute [of dupMeta
        "[attr ''name'' ''x'', attr ''property'' ''p1'', attr ''content'' ''1'',
          attr ''name'' ''description'', attr ''property'' ''p2'']"
        "attr ''content'' ''2''" "[]" "exampleEnv Map.empty" "newScrapedData ''http://h''"
        "''http://h''" "''content''"]
    by (simp add: dupMeta_def element_def attr_def)
  have 3: "extractNode (exampleEnv Map.empty) dupMeta (newScrapedData ''http://h'') ''http://h'' =
       (newScrapedData ''http://h'')\<lparr>MetaTags := [''description'' \<mapsto> ''2''], Description := ''2''\<rparr>"
    using first_href_src_last_meta_attribute [of dupMeta
        "[attr ''name'' ''x'', attr ''property'' ''p1'', attr ''content'' ''1'']"
        "attr ''name'' ''description''" "[attr ''property'' ''p2'', attr ''content'' ''2'']"
        "exampleEnv Map.empty" "newScrapedData ''http://h''" "''http://h''" "''name''"]
      metas content
    by (simp add: dupMeta_def element_def attr_def newScrapedData_def)
  have pcontent: "lastValue ''content'' (Attr dupProp) = ''2''"
    and pname: "lastValue ''name'' (Attr dupProp) = []"
    using first_href_src_last_meta_attribute [of dupProp
        "[attr ''property'' ''p1'', attr ''content'' ''1'', attr ''property'' ''og:title'']"
        "attr ''content'' ''2''" "[]" "exampleEnv Map.empty" "newScrapedData ''http://h''"
        "''http://h''" "''content''"]
    by (simp_all add: dupProp_def element_def attr_def lastValue_def)
  have 4: "extractNode (exampleEnv Map.empty) dupProp (newScrapedData ''http://h'') ''http://h'' =
       (newScrapedData ''http://h'')\<lparr>MetaTags := [''og:title'' \<mapsto> ''2'']\<rparr>"
    using first_href_src_last_meta_attribute [of dupProp
        "[attr ''property'' ''p1'', attr ''content'' ''1'']"
        "attr ''property'' ''og:title''" "[attr ''content'' ''2'']"
        "exampleEnv Map.empty" "newScrapedData ''http://h''" "''http://h''" "''property''"]
      metas pcontent pname
    by (simp add: dupProp_def element_def attr_def newScrapedData_def)
  have 5: "fst (metaAttrs (Attr dupMeta)) = ''description''"
    using first_href_src_last_meta_attribute [of dupMeta
        "[attr ''name'' ''x'', attr ''property'' ''p1'', attr ''content'' ''1'']"
        "attr ''name'' ''description''" "[attr ''property'' ''p2'', attr ''content'' ''2'']"
        "exampleEnv Map.empty" "newScrapedData ''http://h''" "''http://h''" "''name''"]
    by (simp add: dupMeta_def element_def attr_def)
  have 6: "fst (snd (metaAttrs (Attr dupMeta))) = ''p2''"
    using first_href_src_last_meta_attribute [of dupMeta
        "[attr ''name'' ''x'', attr ''property'' ''p1'', attr ''content'' ''1'',
          attr ''name'' ''description'']"
        "attr ''property'' ''p2''" "[attr ''content'' ''2'']"
        "exampleEnv Map.empty" "newScrapedData ''http://h''" "''http://h''" "''property''"]
    by (simp add: dupMeta_def element_def attr_def)
  have 7: "snd (snd (metaAttrs (Attr dupMeta))) = ''2''"
    using first_href_src_last_meta_attribute [of dupMeta
        "[attr ''name'' ''x'', attr ''property'' ''p1'', attr ''content'' ''1'',
          attr ''name'' ''description'', attr ''property'' ''p2'']"
        "attr ''content'' ''2''" "[]"
        "exampleEnv Map.empty" "newScrapedData ''http://h''" "''http://h''" "''content''"]
    by (simp add: dupMeta_def element_def attr_def)
  from 5 6 7 have 8: "metaAttrs (Attr dupMeta) = (''description'', ''p2'', ''2'')"
    by (metis prod.collapse)
  have links: "Links (extractLink (exampleEnv Map.empty) dupLink (newScrapedData ''http://h'') ''http://h'') =
     [\<lparr>Href = ''http://h/first'', LinkText = ''t''\<rparr>]"
    unfolding 1 by (simp add: example_defs dupLink_def)
  have images: "Images (extractImage (exampleEnv Map.empty) dupImage (newScrapedData ''http://h'') ''http://h'') =
     [''http://h/1.png'']"
    unfolding 2 by (simp add: example_defs)
  from links images 3 4 8 show ?thesis by blast
qed

text \<open>
  Claim C4, as amended. A \<open>meta\<close> element with a non-empty name stores its content under
  the name and sets \<open>Description\<close> or \<open>Keywords\<close> exactly when the name is
  \<open>description\<close> or \<open>keywords\<close>; with an empty name and a non-empty property it stores
  the content under the property and changes no other field. After the traversal,
  \<open>Description\<close> and \<open>Keywords\<close> hold the content of the last \<open>meta\<close> element with that
  name, and the entry of the map for a key holds the content of the last \<open>meta\<close> element
  stored under that key, be it through its name or through its property.
\<close>

theorem meta_tags_last_write_wins:
  "(metaName m \<noteq> [] \<longrightarrow>
      extractMetaTag m d =
        d\<lparr>MetaTags := (MetaTags d)(metaName m \<mapsto> metaContent m),
          Description := (if metaName m = ''description'' then metaContent m else Description d),
          Keywords := (if metaName m = ''keywords'' then metaContent m else Keywords d)\<rparr>)
   \<and> (metaName m = [] \<and> metaProperty m \<noteq> [] \<longrightarrow>
      extractMetaTag m d = d\<lparr>MetaTags := (MetaTags d)(metaProperty m \<mapsto> metaContent m)\<rparr>)
   \<and> Description (extractData env n d b) =
       (if filter (\<lambda>m. metaName m = ''description'') (metaElements n) = [] then Description d
        else metaContent (last (filter (\<lambda>m. metaName m = ''description'') (metaElements n))))
   \<and> Keywords (extractData env n d b) =
       (if filter (\<lambda>m. metaName m = ''keywords'') (metaElements n) = [] then Keywords d
        else metaContent (last (filter (\<lambda>m. metaName m = ''keywords'') (metaElements n))))
   \<and> (k \<noteq> [] \<longrightarrow> MetaTags (extractData env n d b) k =
       (if filter (\<lambda>m. metaKey m = k) (metaElements n) = [] then MetaTags d k
        else Some (metaContent (last (filter (\<lambda>m. metaKey m = k) (metaElements n))))))"
  using extractMetaTag_named [of m d] extractMetaTag_property [of m d]
    Description_extractData [of env n d b] Keywords_extractData [of env n d b]
    MetaTags_extractData [of k env n d b]
  by blast

theorem meta_tags_last_write_wins_witness:
  "Description (extractData (exampleEnv Map.empty) twoDescriptions (newScrapedData ''http://h'') ''http://h'') = ''B''
   \<and> MetaTags (extractData (exampleEnv Map.empty) twoDescriptions (newScrapedData ''http://h'') ''http://h'')
       ''description'' = Some ''B''
   \<and> extractMetaTag metaProp (newScrapedData ''http://h'') =
       (newScrapedData ''http://h'')\<lparr>MetaTags := [''description'' \<mapsto> ''C'']\<rparr>"
proof -
  have metas: "metaElements twoDescriptions = [metaA, metaB]"
    by (simp add: metaElements_def twoDescriptions_def metaA_def metaB_def element_def isElement_def)
  have vals: "metaName metaA = ''description''" "metaName metaB = ''description''"
      "metaKey metaA = ''description''" "metaKey metaB = ''description''" "metaContent metaB = ''B''"
      "metaName metaProp = []" "metaProperty metaProp = ''description''" "metaContent metaProp = ''C''"
    by (simp_all add: metaName_def metaKey_def metaContent_def metaProperty_def metaA_def metaB_def
        metaProp_def element_def attr_def metaAttrs_def metaAttrStep_def)
  from meta_tags_last_write_wins [where m = metaProp and d = "newScrapedData ''http://h''"
      and env = "exampleEnv Map.empty" and n = twoDescriptions and b = "''http://h''"
      and k = "''description''"]
  show ?thesis
    by (simp add: metas vals newScrapedData_def)
qed

text \<open>
  The claim as the specification states it fails for the entry of the map: of three
  \<open>meta\<close> elements, two named \<open>description\<close> with the contents \<open>A\<close> and \<open>B\<close> and then
  one with the property \<open>description\<close> and the content \<open>C\<close>, the last one named
  \<open>description\<close> holds \<open>B\<close>, and the entry is \<open>C\<close>.
\<close>

theorem property_overwrites_named_entry:
  "metaContent (last (filter (\<lambda>m. metaName m = ''description'') (metaElements collidingMetas))) = ''B''
   \<and> MetaTags (extractData (exampleEnv Map.empty) collidingMetas (newScrapedData ''http://h'') ''http://h'')
       ''description'' = Some ''C''
   \<and> Description (extractData (exampleEnv Map.empty) collidingMetas (newScrapedData ''http://h'') ''http://h'')
       = ''B''"
  by (simp add: collidingMetas_def metaA_def metaB_def metaProp_def element_def attr_def
      metaElements_def isElement_def metaName_def metaContent_def metaAttrs_def metaAttrStep_def
      extractNode_def extractMetaTag_def newScrapedData_def)

section \<open>The anti-bot classifier\<close>

text \<open>
  Claim C5, as amended. The label \<open>detectAntiBotService\<close> returns depends on the headers
  of the response only, and is the label of the first of the seven rules, in the order of
  the specification, that the headers match, and no label (the empty string) when none
  matches. A \<open>Server\<close> header equal to \<open>cloudflare\<close>, or a \<open>CF-Ray\<close> header with a
  non-empty value, gives \<open>Cloudflare\<close>, whatever later rule matches too.
\<close>

theorem detectAntiBotService_first_match:
  "detectAntiBotService resp = firstMatch antiBotRules (Header resp)
   \<and> (Get (Header resp) ''Server'' = ''cloudflare'' \<or> Get (Header resp) ''CF-Ray'' \<noteq> []
        \<longrightarrow> detectAntiBotService resp = ''Cloudflare'')
   \<and> (Header resp' = Header resp \<longrightarrow> detectAntiBotService resp' = detectAntiBotService resp)"
  by (simp add: detectAntiBotService_def firstMatch_def antiBotRules_def)

theorem detectAntiBotService_first_match_witness:
  "Get (Header rayResponse) ''CF-Ray'' \<noteq> [] \<and> Get (Header rayResponse) ''X-Sucuri-ID'' \<noteq> []
   \<and> detectAntiBotService rayResponse = ''Cloudflare''
   \<and> firstMatch antiBotRules (Header rayResponse) = ''Cloudflare''"
proof -
  have ray: "Get (Header rayResponse) ''CF-Ray'' \<noteq> []"
    and sucuri: "Get (Header rayResponse) ''X-Sucuri-ID'' \<noteq> []"
    by (simp_all add: rayResponse_def Get_def)
  from detectAntiBotService_first_match [of rayResponse rayResponse] ray
  have "detectAntiBotService rayResponse = ''Cloudflare''"
    and "firstMatch antiBotRules (Header rayResponse) = ''Cloudflare''"
    by metis+
  with ray sucuri show ?thesis by blast
qed

text \<open>
  The claim as the specification states it, for any \<open>CF-Ray\<close> header that is present,
  fails: a response with a \<open>CF-Ray\<close> header whose value is empty gets no label.
\<close>

theorem empty_CF_Ray_not_detected:
  "''CF-Ray'' \<in> dom (Header emptyRayResponse) \<and> detectAntiBotService emptyRayResponse = []"
  by (simp add: emptyRayResponse_def detectAntiBotService_def Get_def)

section \<open>The URL validator\<close>

text \<open>
  Claim C6. The validation step lets a string pass exactly when it parses as a URL whose
  scheme is \<open>http\<close> or \<open>https\<close>. Every other string is answered with \<open>invalid_url\<close>; the
  handler's reply is then the same whatever the HTTP client and the parser do, and for a
  GET request with a non-empty parameter it is this \<open>invalid_url\<close> reply.
\<close>

theorem validateURL_accepts_http_https_only:
  "(validateURL env s = None \<longleftrightarrow>
      (\<exists>p. urlParse env s = Inr p \<and> (urlScheme env p = ''http'' \<or> urlScheme env p = ''https'')))
   \<and> (validateURL env s \<noteq> None \<longrightarrow>
        validateURL env s = Some (sendError 400 ''invalid_url'' ''URL must be a valid http or https URL'')
        \<and> scrapeHandler (env\<lparr>htmlParse := parser, NewRequest := req, clientDo := do\<rparr>) Method s
            = scrapeHandler env Method s
        \<and> (Method = ''GET'' \<and> s \<noteq> [] \<longrightarrow>
             scrapeHandler env Method s =
               sendError 400 ''invalid_url'' ''URL must be a valid http or https URL''))"
  by (auto simp: validateURL_def scrapeHandler_def split: sum.splits)

theorem validateURL_accepts_http_https_only_witness:
  "validateURL (exampleEnv Map.empty) ''https://example.com/x'' = None
   \<and> validateURL (exampleEnv Map.empty) ''ftp://example.com/x'' =
       Some (sendError 400 ''invalid_url'' ''URL must be a valid http or https URL'')
   \<and> scrapeHandler (exampleEnv Map.empty) ''GET'' ''not a url'' =
       sendError 400 ''invalid_url'' ''URL must be a valid http or https URL''"
proof -
  have ok: "urlParse (exampleEnv Map.empty) ''https://example.com/x'' = Inr ''https://example.com/x''"
      "urlScheme (exampleEnv Map.empty) ''https://example.com/x'' = ''https''"
    by (simp_all add: exampleEnv_def schemeOf_def)
  have ftp: "urlParse (exampleEnv Map.empty) ''ftp://example.com/x'' = Inr ''ftp://example.com/x''"
      "urlScheme (exampleEnv Map.empty) ''ftp://example.com/x'' = ''ftp''"
    by (simp_all add: exampleEnv_def schemeOf_def)
  have bad: "urlParse (exampleEnv Map.empty) ''not a url'' = Inl ''invalid character in URL''"
    by (simp add: exampleEnv_def)
  have 1: "validateURL (exampleEnv Map.empty) ''https://example.com/x'' = None"
    using validateURL_accepts_http_https_only [of "exampleEnv Map.empty" "''https://example.com/x''"] ok
    by simp
  have 2: "validateURL (exampleEnv Map.empty) ''ftp://example.com/x'' =
       Some (sendError 400 ''invalid_url'' ''URL must be a valid http or https URL'')"
    using validateURL_accepts_http_https_only [of "exampleEnv Map.empty" "''ftp://example.com/x''"] ftp
    by simp
  have 3: "scrapeHandler (exampleEnv Map.empty) ''GET'' ''not a url'' =
       sendError 400 ''invalid_url'' ''URL must be a valid http or https URL''"
    using validateURL_accepts_http_https_only [where env = "exampleEnv Map.empty"
        and s = "''not a url''" and Method = "''GET''"] bad
    by simp
  from 1 2 3 show ?thesis by blast
qed

section \<open>The extractor: titles, links, headings and empty contents\<close>

text \<open>
  Claim C7. After the traversal of any tree from the empty result, the title is the text
  of the last \<open>title\<close> element in document order, as \<open>getTextContent\<close> returns it,
  without trimming, and it is empty when the tree has no \<open>title\<close> element. The text of
  a text node is its content; the text of any other node is the concatenation, in order,
  of the texts of its children.
\<close>

theorem title_is_text_of_last_title_element:
  "Title (extractData env n (newScrapedData u) b) =
     (if titleElements n = [] then [] else getTextContent (last (titleElements n)))
   \<and> getTextContent m =
       (if Type m = TextNode then Data m else concat (map getTextContent (Children m)))"
  using getTextContent_unfold [of m] by (simp add: Title_extractData newScrapedData_def)

theorem title_is_text_of_last_title_element_witness:
  "Title (extractData (exampleEnv Map.empty) twoTitles (newScrapedData ''http://h'') ''http://h'') = ''B c ''
   \<and> Title (extractData (exampleEnv Map.empty) (textNode ''x'') (newScrapedData ''http://h'') ''http://h'') = []"
  using title_is_text_of_last_title_element [of "exampleEnv Map.empty" twoTitles "''http://h''" "''http://h''"
      "textNode ''x''"]
    title_is_text_of_last_title_element [of "exampleEnv Map.empty" "textNode ''x''" "''http://h''" "''http://h''"
      "textNode ''x''"]
  by (simp add: titleElements_def twoTitles_def element_def textNode_def isElement_def)

text \<open>
  Claim C8. The links of the result are, in document order, those of the \<open>a\<close> elements
  whose first \<open>href\<close> attribute exists and has a non-empty value: each such element
  gives one link, whose text is the trimmed text of the element, and no other node gives
  one. An \<open>a\<close> element without an \<open>href\<close> attribute changes nothing. When the URL
  package returns a non-empty string for every reference resolved against the base, no
  link of the result has an empty \<open>href\<close>.
\<close>

theorem links_from_anchors_with_href:
  "Links (extractData env n (newScrapedData u) b) = map (linkOf env b) (filter linked (preorder n))
   \<and> ((\<forall>base ref. urlParse env b = Inr base \<longrightarrow> urlString env (ResolveReference env base ref) \<noteq> [])
        \<longrightarrow> (\<forall>l\<in>set (Links (extractData env n (newScrapedData u) b)). Href l \<noteq> []))
   \<and> (isElement ''a'' m \<and> (\<forall>a\<in>set (Attr m). Key a \<noteq> ''href'') \<longrightarrow> extractNode env m d b = d)"
proof (intro conjI impI)
  show L: "Links (extractData env n (newScrapedData u) b) = map (linkOf env b) (filter linked (preorder n))"
    by (simp add: Links_extractData newScrapedData_def)
  show "\<forall>l\<in>set (Links (extractData env n (newScrapedData u) b)). Href l \<noteq> []"
    if "\<forall>base ref. urlParse env b = Inr base \<longrightarrow> urlString env (ResolveReference env base ref) \<noteq> []"
  proof
    fix l assume "l \<in> set (Links (extractData env n (newScrapedData u) b))"
    then obtain m' where m': "linked m'" "l = linkOf env b m'" unfolding L by auto
    from resolveURL_nonempty [OF that linked_firstAttr [OF m'(1)]] m'(2)
    show "Href l \<noteq> []" by (simp add: linkOf_def)
  qed
  show "extractNode env m d b = d" if "isElement ''a'' m \<and> (\<forall>a\<in>set (Attr m). Key a \<noteq> ''href'')"
    using that by (simp add: extractNode_def isElement_def extractLink_def firstAttr_absent)
qed

theorem links_from_anchors_with_href_witness:
  "Links (extractData (exampleEnv Map.empty) anchors (newScrapedData ''http://h'') ''http://h'') =
       [\<lparr>Href = ''http://h/y'', LinkText = []\<rparr>]
   \<and> [] \<notin> set (map Href
        (Links (extractData (exampleEnv Map.empty) anchors (newScrapedData ''http://h'') ''http://h'')))
   \<and> extractNode (exampleEnv Map.empty) (element ''a'' [attr ''data-href'' ''/z''] [textNode ''t''])
        (newScrapedData ''http://h'') ''http://h'' = newScrapedData ''http://h''"
proof -
  have lib: "\<forall>base ref. urlParse (exampleEnv Map.empty) ''http://h'' = Inr base \<longrightarrow>
       urlString (exampleEnv Map.empty) (ResolveReference (exampleEnv Map.empty) base ref) \<noteq> []"
    by (auto simp: exampleEnv_def schemeOf_def)
  have el: "isElement ''a'' (element ''a'' [attr ''data-href'' ''/z''] [textNode ''t''])
      \<and> (\<forall>a\<in>set (Attr (element ''a'' [attr ''data-href'' ''/z''] [textNode ''t''])). Key a \<noteq> ''href'')"
    by (simp add: isElement_def element_def attr_def)
  have ls: "map (linkOf (exampleEnv Map.empty) ''http://h'') (filter linked (preorder anchors)) =
      [\<lparr>Href = ''http://h/y'', LinkText = []\<rparr>]"
    by (simp add: anchors_def linked_def linkOf_def isElement_def example_defs)
  note inst = links_from_anchors_with_href [of "exampleEnv Map.empty" anchors "''http://h''" "''http://h''"
      "element ''a'' [attr ''data-href'' ''/z''] [textNode ''t'']" "newScrapedData ''http://h''"]
  from inst ls
  have 1: "Links (extractData (exampleEnv Map.empty) anchors (newScrapedData ''http://h'') ''http://h'') =
       [\<lparr>Href = ''http://h/y'', LinkText = []\<rparr>]"
    by simp
  from inst lib
  have "\<forall>l\<in>set (Links (extractData (exampleEnv Map.empty) anchors (newScrapedData ''http://h'') ''http://h'')).
      Href l \<noteq> []"
    by blast
  then have 2: "[] \<notin> set (map Href
        (Links (extractData (exampleEnv Map.empty) anchors (newScrapedData ''http://h'') ''http://h'')))"
    by auto
  from inst el
  have 3: "extractNode (exampleEnv Map.empty) (element ''a'' [attr ''data-href'' ''/z''] [textNode ''t''])
        (newScrapedData ''http://h'') ''http://h'' = newScrapedData ''http://h''"
    by blast
  from 1 2 3 show ?thesis by blast
qed

text \<open>
  Claim C9. The headings of the result are, in document order, those of the elements
  \<open>h1\<close> to \<open>h6\<close> whose trimmed text is not empty: each such element gives one heading
  with that trimmed text and with the level that is the digit of its tag, and no other
  node gives one. A heading element whose text trims to the empty string changes nothing.
\<close>

theorem headings_from_nonempty_h1_to_h6:
  "Headings (extractData env n (newScrapedData u) b) =
     map (headingOf env) (filter (headed env) (preorder n))
   \<and> (k \<in> {1..6} \<longrightarrow> headingLevel (CHR ''h'' # itoa k) = k)
   \<and> (Type m = ElementNode \<and> isHeadingTag (Data m) \<and> TrimSpace env (getTextContent m) = []
        \<longrightarrow> extractNode env m d b = d)"
proof (intro conjI impI)
  show "Headings (extractData env n (newScrapedData u) b) =
      map (headingOf env) (filter (headed env) (preorder n))"
    by (simp add: Headings_extractData newScrapedData_def)
  show "headingLevel (CHR ''h'' # itoa k) = k" if "k \<in> {1..6}"
  proof -
    from that have "k = 1 \<or> k = 2 \<or> k = 3 \<or> k = 4 \<or> k = 5 \<or> k = 6" by auto
    then show ?thesis by (auto simp: headingLevel_def itoa_def digits.simps)
  qed
  show "extractNode env m d b = d"
    if "Type m = ElementNode \<and> isHeadingTag (Data m) \<and> TrimSpace env (getTextContent m) = []"
    using that by (auto simp: extractNode_def extractHeading_def Let_def isHeadingTag_def)
qed

theorem headings_from_nonempty_h1_to_h6_witness:
  "Headings (extractData (exampleEnv Map.empty) headings (newScrapedData ''http://h'') ''http://h'') =
     [\<lparr>Level = 3, HeadingText = ''Hi''\<rparr>, \<lparr>Level = 6, HeadingText = ''ab''\<rparr>]
   \<and> headingLevel ''h3'' = 3
   \<and> extractNode (exampleEnv Map.empty) (element ''h2'' [] [textNode ''  ''])
        (newScrapedData ''http://h'') ''http://h'' = newScrapedData ''http://h''"
proof -
  have el: "Type (element ''h2'' [] [textNode ''  '']) = ElementNode
      \<and> isHeadingTag (Data (element ''h2'' [] [textNode ''  '']))
      \<and> TrimSpace (exampleEnv Map.empty) (getTextContent (element ''h2'' [] [textNode ''  ''])) = []"
    by (simp add: element_def isHeadingTag_def example_defs)
  have hs: "map (headingOf (exampleEnv Map.empty)) (filter (headed (exampleEnv Map.empty)) (preorder headings)) =
      [\<lparr>Level = 3, HeadingText = ''Hi''\<rparr>, \<lparr>Level = 6, HeadingText = ''ab''\<rparr>]"
    by (simp add: headings_def headed_def headingOf_def isHeadingTag_def headingLevel_def example_defs)
  have three: "(3::int) \<in> {1..6}" "CHR ''h'' # itoa 3 = ''h3''"
    by (simp_all add: itoa_def digits.simps)
  from headings_from_nonempty_h1_to_h6 [of "exampleEnv Map.empty" headings "''http://h''" "''http://h''" 3
      "element ''h2'' [] [textNode ''  '']" "newScrapedData ''http://h''"]
    el hs three
  show ?thesis by simp
qed

text \<open>
  Claim C10. A \<open>meta\<close> element whose last \<open>name\<close> attribute has a non-empty value and
  which has no \<open>content\<close> attribute stores the empty string under that name, and sets
  \<open>Description\<close> or \<open>Keywords\<close> to the empty string when the name is \<open>description\<close> or
  \<open>keywords\<close>, whatever the fields held before: a value taken from an earlier element
  is overwritten.
\<close>

theorem meta_without_content_stores_empty:
  assumes "isElement ''meta'' m" and "Attr m = xs @ a # ys"
    and "Key a = ''name''" and "\<forall>y\<in>set ys. Key y \<noteq> ''name''" and "Val a \<noteq> []"
    and "\<forall>x\<in>set (Attr m). Key x \<noteq> ''content''"
  shows "MetaTags (extractNode env m d b) (Val a) = Some []
       \<and> (Val a = ''description'' \<longrightarrow> Description (extractNode env m d b) = [])
       \<and> (Val a = ''keywords'' \<longrightarrow> Keywords (extractNode env m d b) = [])"
proof -
  have name: "metaName m = Val a"
    using assms(2-4) by (simp add: metaName_def metaAttrs_last firstAttr_decomp)
  have "\<forall>x\<in>set (rev (Attr m)). Key x \<noteq> ''content''" using assms(6) by simp
  then have content: "metaContent m = []"
    by (simp add: metaContent_def metaAttrs_last firstAttr_absent del: set_rev)
  from name content assms(1,5) show ?thesis
    by (simp add: extractNode_meta extractMetaTag_named)
qed

theorem meta_without_content_stores_empty_witness:
  "Description (extractNode (exampleEnv Map.empty) metaA (newScrapedData ''http://h'') ''http://h'') = ''A''
   \<and> Description (extractNode (exampleEnv Map.empty) metaBare
        (extractNode (exampleEnv Map.empty) metaA (newScrapedData ''http://h'') ''http://h'') ''http://h'') = []
   \<and> MetaTags (extractNode (exampleEnv Map.empty) metaBare
        (extractNode (exampleEnv Map.empty) metaA (newScrapedData ''http://h'') ''http://h'') ''http://h'')
        ''description'' = Some []"
proof -
  have first: "Description (extractNode (exampleEnv Map.empty) metaA (newScrapedData ''http://h'') ''http://h'') = ''A''"
    by (simp add: extractNode_def extractMetaTag_def metaA_def element_def attr_def metaAttrs_def
        metaAttrStep_def)
  have hyps: "isElement ''meta'' metaBare" "Attr metaBare = [] @ attr ''name'' ''description'' # []"
      "Key (attr ''name'' ''description'') = ''name''" "\<forall>y\<in>set []. Key y \<noteq> ''name''"
      "Val (attr ''name'' ''description'') \<noteq> []" "\<forall>x\<in>set (Attr metaBare). Key x \<noteq> ''content''"
    by (simp_all add: metaBare_def element_def attr_def isElement_def)
  from meta_without_content_stores_empty [OF hyps, of "exampleEnv Map.empty"
      "extractNode (exampleEnv Map.empty) metaA (newScrapedData ''http://h'') ''http://h''" "''http://h''"]
    first
  show ?thesis by (simp add: attr_def)
qed

end
